theory Spec2Isabelle
  imports Complex_Main
begin

section \<open>Konsole theme switcher: the embedding\<close>

text \<open>
  The program is \<^verbatim>\<open>src/konsole/konsole-theme-switcher.py\<close>. It watches the
  file \<^verbatim>\<open>kdeglobals\<close>, reads the colour scheme of the desktop with
  \<^verbatim>\<open>kreadconfig6\<close>, and sets the profile \<^verbatim>\<open>Light\<close> or \<^verbatim>\<open>Dark\<close>
  on every session of every running Konsole through \<^verbatim>\<open>qdbus-qt6\<close>.

  Conventions of the model.
  \<^item> A Python \<^verbatim>\<open>str\<close> is a \<^typ>\<open>string\<close>; a \<^typ>\<open>char\<close> stands for one code
    point below 256, and \<^verbatim>\<open>lower\<close>, \<^verbatim>\<open>isspace\<close> are Python's on that range.
  \<^item> Python's \<^verbatim>\<open>int\<close> is \<^typ>\<open>int\<close>; a reading of \<^verbatim>\<open>time.monotonic()\<close> is an
    exact rational number of seconds (the rounding of float subtraction is not modelled).
  \<^item> \<^verbatim>\<open>subprocess.run\<close> is a transition of the outside world, of any type \<open>'w\<close>:
    it takes the argument vector and answers with the \<^verbatim>\<open>CompletedProcess\<close> (exit
    status and captured output), unless the program cannot be started: then the call
    raises \<^verbatim>\<open>OSError\<close> (of which \<^verbatim>\<open>FileNotFoundError\<close> is a subclass) and no process
    has run. A call that never returns is outside the model. Every process that ran and
    every printed line is appended to a trace.
  \<^item> An exception is a value of type \<open>exn\<close>; a function that may raise returns
    \<open>exn + 'a\<close> beside the state it leaves behind.
\<close>

subsection \<open>Strings\<close>

definition isspace :: "char \<Rightarrow> bool" where
  "isspace c = (let n = (of_char c :: nat) in
     (9 \<le> n \<and> n \<le> 13) \<or> (28 \<le> n \<and> n \<le> 32) \<or> n = 133 \<or> n = 160)"

definition strip :: "string \<Rightarrow> string" where
  "strip s = rev (dropWhile isspace (rev (dropWhile isspace s)))"

definition lower_char :: "char \<Rightarrow> char" where
  "lower_char c = (let n = (of_char c :: nat) in
     if (65 \<le> n \<and> n \<le> 90) \<or> (192 \<le> n \<and> n \<le> 222 \<and> n \<noteq> 215)
     then char_of (n + 32) else c)"

definition lower :: "string \<Rightarrow> string" where
  "lower s = map lower_char s"

definition startswith :: "string \<Rightarrow> string \<Rightarrow> bool" where
  "startswith s p = (take (length p) s = p)"

text \<open>\<^verbatim>\<open>sub in s\<close> on strings: \<open>sub\<close> starts at some position of \<open>s\<close>.\<close>

fun contains :: "string \<Rightarrow> string \<Rightarrow> bool" where
  "contains sub [] = (sub = [])"
| "contains sub (c # cs) = (startswith (c # cs) sub \<or> contains sub cs)"

text \<open>\<^verbatim>\<open>s.split(sep)\<close> for a separator of one character; \<open>acc\<close> is the field being read,
  reversed.\<close>

fun split_acc :: "char \<Rightarrow> string \<Rightarrow> string \<Rightarrow> string list" where
  "split_acc sep acc [] = [rev acc]"
| "split_acc sep acc (c # cs) =
     (if c = sep then rev acc # split_acc sep [] cs else split_acc sep (c # acc) cs)"

definition split :: "string \<Rightarrow> char \<Rightarrow> string list" where
  "split s sep = split_acc sep [] s"

fun str_nat :: "nat \<Rightarrow> string" where
  "str_nat n = (if n < 10 then [char_of (48 + n)]
                else str_nat (n div 10) @ [char_of (48 + n mod 10)])"

declare str_nat.simps [simp del]

text \<open>The text an f-string puts for an \<^verbatim>\<open>int\<close>.\<close>

definition str_int :: "int \<Rightarrow> string" where
  "str_int i = (if i < 0 then CHR ''-'' # str_nat (nat (- i)) else str_nat (nat i))"

subsection \<open>Exceptions and \<^verbatim>\<open>int(...)\<close>\<close>

datatype exn = CalledProcessError int "string list" | ValueError | OSError | KeyboardInterrupt

definition is_digit :: "char \<Rightarrow> bool" where
  "is_digit c = (let n = (of_char c :: nat) in 48 \<le> n \<and> n \<le> 57)"

definition int_isspace :: "char \<Rightarrow> bool" where
  "int_isspace c = (let n = (of_char c :: nat) in
     (9 \<le> n \<and> n \<le> 13) \<or> n = 32 \<or> n = 133 \<or> n = 160)"

text \<open>The digits of a decimal literal, left to right: single underscores may stand
  between digits. \<open>acc\<close> is the value read so far, \<open>after_digit\<close> says that the
  character before was a digit.\<close>

fun int_digits :: "int \<Rightarrow> bool \<Rightarrow> string \<Rightarrow> int option" where
  "int_digits acc after_digit [] = (if after_digit then Some acc else None)"
| "int_digits acc after_digit (c # cs) =
     (if is_digit c then int_digits (10 * acc + (int (of_char c) - 48)) True cs
      else if c = CHR ''_'' \<and> after_digit \<and> cs \<noteq> [] \<and> is_digit (hd cs)
        then int_digits acc False cs
      else None)"

text \<open>The most digits that \<^verbatim>\<open>int\<close> converts (\<^verbatim>\<open>sys.int_max_str_digits\<close>, by
  default).\<close>

definition int_max_str_digits :: nat where
  "int_max_str_digits = 4300"

text \<open>\<^verbatim>\<open>int(s)\<close> in base 10: white space around, an optional sign, the digits.
  Anything else raises \<^verbatim>\<open>ValueError\<close>, and so does a literal of more digits than the
  limit.\<close>

definition py_int :: "string \<Rightarrow> exn + int" where
  "py_int s =
     (let t = rev (dropWhile int_isspace (rev (dropWhile int_isspace s)));
          (neg, ds) = (case t of
              c # cs \<Rightarrow> if c = CHR ''-'' then (True, cs)
                         else if c = CHR ''+'' then (False, cs) else (False, t)
            | [] \<Rightarrow> (False, t))
      in if length (filter is_digit ds) > int_max_str_digits then Inl ValueError
         else (case int_digits 0 False ds of
                 None \<Rightarrow> Inl ValueError
               | Some v \<Rightarrow> Inr (if neg then - v else v)))"

text \<open>The list comprehension \<^verbatim>\<open>[int(pid) for pid in xs]\<close>: the first element that
  does not parse raises.\<close>

fun int_all :: "string list \<Rightarrow> exn + int list" where
  "int_all [] = Inr []"
| "int_all (x # xs) =
     (case py_int x of
        Inl e \<Rightarrow> Inl e
      | Inr v \<Rightarrow> (case int_all xs of Inl e \<Rightarrow> Inl e | Inr vs \<Rightarrow> Inr (v # vs)))"

subsection \<open>The outside world\<close>

record completed_process =
  returncode :: int
  stdout :: string

datatype event = Run "string list" completed_process | Print string

text \<open>What the program is given by its environment: \<open>can_start\<close> says whether the
  program of an argument vector can be started in a world, \<open>run\<close> is what the started
  process does to the world and returns, \<open>monotonic\<close> the clock of a world,
  \<open>KONSOLERC_PATH\<close> and \<open>KDEGLOBALS_PATH\<close> the text of the two paths under the home
  directory, \<open>exc_str\<close> the text Python prints for an exception.\<close>

record 'w env =
  can_start :: "string list \<Rightarrow> 'w \<Rightarrow> bool"
  run :: "string list \<Rightarrow> 'w \<Rightarrow> completed_process \<times> 'w"
  monotonic :: "'w \<Rightarrow> rat"
  KONSOLERC_PATH :: string
  KDEGLOBALS_PATH :: string
  exc_str :: "exn \<Rightarrow> string"

record 'w sys =
  world :: 'w
  trace :: "event list"

type_synonym ('a, 'w) py = "'w sys \<Rightarrow> (exn + 'a) \<times> 'w sys"

definition py_return :: "'a \<Rightarrow> ('a, 'w) py" where
  "py_return x s = (Inr x, s)"

definition py_bind :: "('a, 'w) py \<Rightarrow> ('a \<Rightarrow> ('b, 'w) py) \<Rightarrow> ('b, 'w) py" where
  "py_bind m f s = (case m s of (Inl e, s') \<Rightarrow> (Inl e, s') | (Inr x, s') \<Rightarrow> f x s')"

text \<open>\<^verbatim>\<open>try: m except <classes>: h\<close>, the classes given as a predicate.\<close>

definition try_except :: "('a, 'w) py \<Rightarrow> (exn \<Rightarrow> bool) \<Rightarrow> (exn \<Rightarrow> ('a, 'w) py) \<Rightarrow> ('a, 'w) py" where
  "try_except m handles h s =
     (case m s of
        (Inl e, s') \<Rightarrow> if handles e then h e s' else (Inl e, s')
      | (Inr x, s') \<Rightarrow> (Inr x, s'))"

fun is_CalledProcessError :: "exn \<Rightarrow> bool" where
  "is_CalledProcessError (CalledProcessError rc cmd) = True"
| "is_CalledProcessError e = False"

fun is_ValueError :: "exn \<Rightarrow> bool" where
  "is_ValueError ValueError = True"
| "is_ValueError e = False"

definition print :: "string \<Rightarrow> (unit, 'w) py" where
  "print line s = (Inr (), s\<lparr>trace := trace s @ [Print line]\<rparr>)"

text \<open>\<^verbatim>\<open>subprocess.run(argv, capture_output=True, text=True)\<close>: raises \<^verbatim>\<open>OSError\<close>
  when the program cannot be started, and returns the completed process otherwise.\<close>

definition subprocess_run :: "'w env \<Rightarrow> string list \<Rightarrow> (completed_process, 'w) py" where
  "subprocess_run E argv s =
     (if can_start E argv (world s)
      then (case run E argv (world s) of
              (r, w') \<Rightarrow> (Inr r, s\<lparr>world := w', trace := trace s @ [Run argv r]\<rparr>))
      else (Inl OSError, s))"

text \<open>With \<^verbatim>\<open>check=True\<close> a non-zero exit status raises \<^verbatim>\<open>CalledProcessError\<close>.\<close>

definition subprocess_run_check :: "'w env \<Rightarrow> string list \<Rightarrow> (completed_process, 'w) py" where
  "subprocess_run_check E argv =
     py_bind (subprocess_run E argv) (\<lambda>r.
       if returncode r \<noteq> 0 then (\<lambda>s. (Inl (CalledProcessError (returncode r) argv), s))
       else py_return r)"

subsection \<open>Mode resolver\<close>

definition LIGHT_PROFILE :: string where "LIGHT_PROFILE = ''Light''"
definition DARK_PROFILE :: string where "DARK_PROFILE = ''Dark''"
definition KDEGLOBALS_NAME :: string where "KDEGLOBALS_NAME = ''kdeglobals''"

definition kreadconfig_argv :: "string list" where
  "kreadconfig_argv = [''kreadconfig6'', ''--group'', ''General'', ''--key'', ''ColorScheme'']"

definition get_kde_color_scheme :: "'w env \<Rightarrow> (string, 'w) py" where
  "get_kde_color_scheme E =
     try_except
       (py_bind (subprocess_run_check E kreadconfig_argv) (\<lambda>result.
          py_return (strip (stdout result))))
       is_CalledProcessError
       (\<lambda>e. py_return [])"

definition dark_indicators :: "string list" where
  "dark_indicators = [''dark'', ''night'', ''black'', ''monokai'', ''dracula'', ''nord'']"

definition is_dark_scheme :: "string \<Rightarrow> bool" where
  "is_dark_scheme scheme_name =
     (let scheme_lower = lower scheme_name
      in list_ex (\<lambda>indicator. contains indicator scheme_lower) dark_indicators)"

definition get_target_profile :: "'w env \<Rightarrow> (string, 'w) py" where
  "get_target_profile E =
     py_bind (get_kde_color_scheme E) (\<lambda>scheme.
       if is_dark_scheme scheme then py_return DARK_PROFILE else py_return LIGHT_PROFILE)"

subsection \<open>Target discovery\<close>

definition pgrep_argv :: "string list" where
  "pgrep_argv = [''pgrep'', ''-x'', ''konsole'']"

text \<open>The body of the \<^verbatim>\<open>try\<close> either returns a list (\<open>Some\<close>) or falls through to
  the \<^verbatim>\<open>return []\<close> after the handler (\<open>None\<close>), and so does the handler.\<close>

definition get_konsole_pids :: "'w env \<Rightarrow> (int list, 'w) py" where
  "get_konsole_pids E =
     py_bind
       (try_except
          (py_bind (subprocess_run E pgrep_argv) (\<lambda>result.
             if returncode result = 0
             then (\<lambda>s. (case int_all (filter (\<lambda>pid. pid \<noteq> [])
                                     (split (strip (stdout result)) (CHR 0x0A))) of
                           Inl e \<Rightarrow> (Inl e, s)
                         | Inr pids \<Rightarrow> (Inr (Some pids), s)))
             else py_return None))
          (\<lambda>e. is_CalledProcessError e \<or> is_ValueError e)
          (\<lambda>e. py_return None))
       (\<lambda>returned. case returned of Some pids \<Rightarrow> py_return pids | None \<Rightarrow> py_return [])"

definition service :: "int \<Rightarrow> string" where
  "service pid = ''org.kde.konsole-'' @ str_int pid"

definition sessions_argv :: "int \<Rightarrow> string list" where
  "sessions_argv pid = [''qdbus-qt6'', service pid, ''/Sessions'']"

text \<open>What \<^verbatim>\<open>get_konsole_sessions\<close> appends to \<^verbatim>\<open>sessions\<close> from one answer.\<close>

definition session_lines :: "completed_process \<Rightarrow> string list" where
  "session_lines result =
     (if returncode result = 0
      then filter (\<lambda>line. startswith line ''/Sessions/'')
             (split (strip (stdout result)) (CHR 0x0A))
      else [])"

definition get_konsole_sessions :: "'w env \<Rightarrow> int \<Rightarrow> (string list, 'w) py" where
  "get_konsole_sessions E pid =
     try_except
       (py_bind (subprocess_run E (sessions_argv pid)) (\<lambda>result.
          py_return (session_lines result)))
       is_CalledProcessError
       (\<lambda>e. py_return [])"

subsection \<open>Profile applicator\<close>

definition setProfile_argv :: "int \<Rightarrow> string \<Rightarrow> string \<Rightarrow> string list" where
  "setProfile_argv pid session_path profile =
     [''qdbus-qt6'', service pid, session_path, ''setProfile'', profile]"

definition set_session_profile :: "'w env \<Rightarrow> int \<Rightarrow> string \<Rightarrow> string \<Rightarrow> (bool, 'w) py" where
  "set_session_profile E pid session_path profile =
     try_except
       (py_bind (subprocess_run_check E (setProfile_argv pid session_path profile)) (\<lambda>r.
          py_return True))
       is_CalledProcessError
       (\<lambda>e. py_return False)"

definition kwriteconfig_argv :: "'w env \<Rightarrow> string \<Rightarrow> string list" where
  "kwriteconfig_argv E profile =
     [''kwriteconfig6'', ''--file'', KONSOLERC_PATH E, ''--group'', ''Desktop Entry'',
      ''--key'', ''DefaultProfile'', profile @ ''.profile'']"

definition update_konsolerc_default_profile :: "'w env \<Rightarrow> string \<Rightarrow> (unit, 'w) py" where
  "update_konsolerc_default_profile E profile =
     try_except
       (py_bind (subprocess_run_check E (kwriteconfig_argv E profile)) (\<lambda>r. py_return ()))
       is_CalledProcessError
       (\<lambda>e. print (''Failed to update konsolerc: '' @ exc_str E e))"

subsection \<open>Reconciliation\<close>

text \<open>The inner loop of \<^verbatim>\<open>switch_all_konsoles\<close>, over the sessions of one instance.\<close>

fun switch_sessions :: "'w env \<Rightarrow> int \<Rightarrow> string \<Rightarrow> string list \<Rightarrow> int \<Rightarrow> (int, 'w) py" where
  "switch_sessions E pid profile [] switched_count s = (Inr switched_count, s)"
| "switch_sessions E pid profile (session # sessions) switched_count s =
     (case set_session_profile E pid session profile s of
        (Inl e, s') \<Rightarrow> (Inl e, s')
      | (Inr ok, s') \<Rightarrow>
          switch_sessions E pid profile sessions
            (if ok then switched_count + 1 else switched_count) s')"

text \<open>The outer loop, over the instances.\<close>

fun switch_pids :: "'w env \<Rightarrow> string \<Rightarrow> int list \<Rightarrow> int \<Rightarrow> (int, 'w) py" where
  "switch_pids E profile [] switched_count s = (Inr switched_count, s)"
| "switch_pids E profile (pid # pids) switched_count s =
     (case get_konsole_sessions E pid s of
        (Inl e, s') \<Rightarrow> (Inl e, s')
      | (Inr sessions, s') \<Rightarrow>
          (case switch_sessions E pid profile sessions switched_count s' of
             (Inl e, s'') \<Rightarrow> (Inl e, s'')
           | (Inr n, s'') \<Rightarrow> switch_pids E profile pids n s''))"

definition summary :: "int \<Rightarrow> string \<Rightarrow> string" where
  "summary switched_count profile =
     ''Switched '' @ str_int switched_count @ '' Konsole session(s) to '' @ [CHR 0x27]
       @ profile @ [CHR 0x27] @ '' profile''"

definition switch_all_konsoles :: "'w env \<Rightarrow> string \<Rightarrow> (unit, 'w) py" where
  "switch_all_konsoles E profile =
     py_bind (get_konsole_pids E) (\<lambda>pids.
     py_bind (switch_pids E profile pids 0) (\<lambda>switched_count.
     print (summary switched_count profile)))"

definition theme_changed :: "string \<Rightarrow> string" where
  "theme_changed profile =
     ''KDE theme changed. Switching to '' @ [CHR 0x27] @ profile @ [CHR 0x27] @ '' profile...''"

definition on_kdeglobals_changed :: "'w env \<Rightarrow> (unit, 'w) py" where
  "on_kdeglobals_changed E =
     py_bind (get_target_profile E) (\<lambda>profile.
     py_bind (print (theme_changed profile)) (\<lambda>u.
     py_bind (switch_all_konsoles E profile) (\<lambda>u.
     update_konsolerc_default_profile E profile)))"

subsection \<open>Debounced change watcher\<close>

record KdeGlobalsHandler =
  last_switch_time :: rat
  last_profile :: "string option"

definition DEBOUNCE_SECONDS :: rat where "DEBOUNCE_SECONDS = 1 / 2"


datatype event_class = IN_CLOSE_WRITE | IN_MOVED_TO

record fs_event =
  maskname :: event_class
  name :: string

definition should_process :: "fs_event \<Rightarrow> bool" where
  "should_process ev = (name ev = KDEGLOBALS_NAME)"

text \<open>\<^verbatim>\<open>_debounced_switch\<close>: the handler object is state of its own, returned beside the
  system state, since it is written before the calls that follow.\<close>

definition debounced_switch ::
  "'w env \<Rightarrow> KdeGlobalsHandler \<Rightarrow> 'w sys \<Rightarrow> (exn + unit) \<times> KdeGlobalsHandler \<times> 'w sys" where
  "debounced_switch E h s =
     (let now = monotonic E (world s) in
      if now - last_switch_time h < DEBOUNCE_SECONDS then (Inr (), h, s)
      else (case get_target_profile E s of
              (Inl e, s1) \<Rightarrow> (Inl e, h, s1)
            | (Inr profile, s1) \<Rightarrow>
                if Some profile = last_profile h then (Inr (), h, s1)
                else (let h' = h\<lparr>last_switch_time := now, last_profile := Some profile\<rparr>
                      in (case py_bind (print (theme_changed profile)) (\<lambda>u.
                                 py_bind (switch_all_konsoles E profile) (\<lambda>u.
                                 update_konsolerc_default_profile E profile)) s1 of
                            (r, s2) \<Rightarrow> (r, h', s2)))))"

definition process_IN_CLOSE_WRITE ::
  "'w env \<Rightarrow> fs_event \<Rightarrow> KdeGlobalsHandler \<Rightarrow> 'w sys \<Rightarrow> (exn + unit) \<times> KdeGlobalsHandler \<times> 'w sys" where
  "process_IN_CLOSE_WRITE E ev h s =
     (if should_process ev then debounced_switch E h s else (Inr (), h, s))"

definition process_IN_MOVED_TO ::
  "'w env \<Rightarrow> fs_event \<Rightarrow> KdeGlobalsHandler \<Rightarrow> 'w sys \<Rightarrow> (exn + unit) \<times> KdeGlobalsHandler \<times> 'w sys" where
  "process_IN_MOVED_TO E ev h s =
     (if should_process ev then debounced_switch E h s else (Inr (), h, s))"

text \<open>The notifier calls the method named after the class of the event.\<close>

definition dispatch ::
  "'w env \<Rightarrow> fs_event \<Rightarrow> KdeGlobalsHandler \<Rightarrow> 'w sys \<Rightarrow> (exn + unit) \<times> KdeGlobalsHandler \<times> 'w sys" where
  "dispatch E ev h s =
     (case maskname ev of
        IN_CLOSE_WRITE \<Rightarrow> process_IN_CLOSE_WRITE E ev h s
      | IN_MOVED_TO \<Rightarrow> process_IN_MOVED_TO E ev h s)"

text \<open>\<^verbatim>\<open>notifier.loop()\<close> on the events that arrive before the operator interrupts.
  Between two events the world moves on its own (time passes, settings are changed):
  each event comes with the world it is delivered in. The loop of pyinotify catches
  \<^verbatim>\<open>KeyboardInterrupt\<close> itself and returns; any other exception of the handler leaves
  the loop. After the last event the interrupt arrives, and the loop returns.\<close>

fun notifier_loop ::
  "'w env \<Rightarrow> (fs_event \<times> 'w) list \<Rightarrow> KdeGlobalsHandler \<Rightarrow> 'w sys \<Rightarrow> (exn + unit) \<times> KdeGlobalsHandler \<times> 'w sys" where
  "notifier_loop E [] h s = (Inr (), h, s)"
| "notifier_loop E ((ev, w) # evs) h s =
     (case dispatch E ev h (s\<lparr>world := w\<rparr>) of
        (Inl e, h', s') \<Rightarrow> if e = KeyboardInterrupt then (Inr (), h', s') else (Inl e, h', s')
      | (Inr u, h', s') \<Rightarrow> notifier_loop E evs h' s')"

subsection \<open>Main\<close>




section \<open>Reading the trace\<close>

text \<open>The answer of a process that has been started in a state, and the state after it
  has run.\<close>

definition answer :: "'w env \<Rightarrow> string list \<Rightarrow> 'w sys \<Rightarrow> completed_process" where
  "answer E argv s = fst (run E argv (world s))"

definition after :: "'w env \<Rightarrow> string list \<Rightarrow> 'w sys \<Rightarrow> 'w sys" where
  "after E argv s = s\<lparr>world := snd (run E argv (world s)),
                       trace := trace s @ [Run argv (answer E argv s)]\<rparr>"

text \<open>The program \<open>prog\<close> can be started, whatever its arguments and the world.\<close>

definition starts :: "'w env \<Rightarrow> string \<Rightarrow> bool" where
  "starts E prog = (\<forall>argv w. take 1 argv = [prog] \<longrightarrow> can_start E argv w)"

text \<open>The instances that \<^verbatim>\<open>get_konsole_pids\<close> reads from an answer of \<^verbatim>\<open>pgrep\<close>.\<close>

definition listed_pids :: "completed_process \<Rightarrow> int list" where
  "listed_pids r =
     (if returncode r = 0
      then (case int_all (filter (\<lambda>pid. pid \<noteq> []) (split (strip (stdout r)) (CHR 0x0A))) of
              Inl e \<Rightarrow> []
            | Inr pids \<Rightarrow> pids)
      else [])"

text \<open>The events of a trace: a call that sets a profile on a session
  (\<^verbatim>\<open>qdbus-qt6 <service> <session> setProfile <profile>\<close>), a call that lists the
  sessions of an instance (\<^verbatim>\<open>qdbus-qt6 <service> /Sessions\<close>), the argument vector of
  a call, whether it exited with status 0, the target and profile of a \<^verbatim>\<open>setProfile\<close>
  call, and the session targets that the answer to a listing call yields.\<close>

fun is_apply :: "event \<Rightarrow> bool" where
  "is_apply (Run argv r) =
     (length argv = 5 \<and> argv ! 0 = ''qdbus-qt6'' \<and> argv ! 3 = ''setProfile'')"
| "is_apply (Print line) = False"

fun is_list :: "event \<Rightarrow> bool" where
  "is_list (Run argv r) =
     (length argv = 3 \<and> argv ! 0 = ''qdbus-qt6'' \<and> argv ! 2 = ''/Sessions'')"
| "is_list (Print line) = False"

fun argv_of :: "event \<Rightarrow> string list" where
  "argv_of (Run argv r) = argv"
| "argv_of (Print line) = []"

fun succeeded :: "event \<Rightarrow> bool" where
  "succeeded (Run argv r) = (returncode r = 0)"
| "succeeded (Print line) = False"

fun apply_of :: "event \<Rightarrow> string \<times> string \<times> string" where
  "apply_of (Run argv r) = (argv ! 1, argv ! 2, argv ! 4)"
| "apply_of (Print line) = ([], [], [])"

fun discovered_by :: "event \<Rightarrow> (string \<times> string) list" where
  "discovered_by (Run argv r) =
     (if is_list (Run argv r) then map (Pair (argv ! 1)) (session_lines r) else [])"
| "discovered_by (Print line) = []"

text \<open>The targets discovered and the \<^verbatim>\<open>setProfile\<close> calls made in a run of events;
  the events that a computation from \<open>s\<close> to \<open>s'\<close> has added to the trace.\<close>

definition discovered :: "event list \<Rightarrow> (string \<times> string) list" where
  "discovered evs = concat (map discovered_by evs)"

definition applied :: "event list \<Rightarrow> event list" where
  "applied evs = filter is_apply evs"

definition emitted :: "'w sys \<Rightarrow> 'w sys \<Rightarrow> event list" where
  "emitted s s' = drop (length (trace s)) (trace s')"



text \<open>A world for running the program on concrete inputs: a clock reading and a script,
  the answers that the next calls of \<^verbatim>\<open>subprocess.run\<close> get, in order, whatever is
  called; when the script is used up every call exits with status 1.\<close>

definition scripted :: "(rat \<times> completed_process list) env" where
  "scripted =
     \<lparr>can_start = (\<lambda>argv w. True),
      run = (\<lambda>argv w. case snd w of
                [] \<Rightarrow> (\<lparr>returncode = 1, stdout = []\<rparr>, w)
              | r # rs \<Rightarrow> (r, (fst w, rs))),
      monotonic = fst,
      KONSOLERC_PATH = ''/home/user/.config/konsolerc'',
      KDEGLOBALS_PATH = ''/home/user/.config/kdeglobals'',
      exc_str = (\<lambda>e. ''non-zero exit status'')\<rparr>"

text \<open>The same world on a machine where the program \<open>prog\<close> is not installed.\<close>

definition without :: "string \<Rightarrow> (rat \<times> completed_process list) env" where
  "without prog = scripted\<lparr>can_start := (\<lambda>argv w. take 1 argv \<noteq> [prog])\<rparr>"

definition ok :: "string \<Rightarrow> completed_process" where
  "ok out = \<lparr>returncode = 0, stdout = out\<rparr>"

definition failed :: completed_process where
  "failed = \<lparr>returncode = 1, stdout = []\<rparr>"

definition script_at :: "rat \<Rightarrow> completed_process list \<Rightarrow> (rat \<times> completed_process list) sys" where
  "script_at t script = \<lparr>world = (t, script), trace = []\<rparr>"

definition nl :: string where
  "nl = [CHR 0x0A]"

definition kdeglobals_written :: fs_event where
  "kdeglobals_written = \<lparr>maskname = IN_CLOSE_WRITE, name = ''kdeglobals''\<rparr>"






section \<open>Lemmas on the model\<close>

lemma starts_pgrep: "starts E ''pgrep'' \<Longrightarrow> can_start E pgrep_argv w"
  by (simp add: starts_def pgrep_argv_def)

lemma starts_sessions: "starts E ''qdbus-qt6'' \<Longrightarrow> can_start E (sessions_argv pid) w"
  by (simp add: starts_def sessions_argv_def)

lemma starts_setProfile:
  "starts E ''qdbus-qt6'' \<Longrightarrow> can_start E (setProfile_argv pid x p) w"
  by (simp add: starts_def setProfile_argv_def)

lemma starts_kwriteconfig:
  "starts E ''kwriteconfig6'' \<Longrightarrow> can_start E (kwriteconfig_argv E p) w"
  by (simp add: starts_def kwriteconfig_argv_def)

lemma starts_scripted: "starts scripted prog"
  by (simp add: starts_def scripted_def)

lemma subprocess_run_eq:
  "subprocess_run E argv s =
     (if can_start E argv (world s) then (Inr (answer E argv s), after E argv s)
      else (Inl OSError, s))"
  by (simp add: subprocess_run_def answer_def after_def split: prod.splits)

lemma subprocess_run_check_eq:
  "subprocess_run_check E argv s =
     (if can_start E argv (world s)
      then (if returncode (answer E argv s) \<noteq> 0
            then Inl (CalledProcessError (returncode (answer E argv s)) argv)
            else Inr (answer E argv s), after E argv s)
      else (Inl OSError, s))"
  by (simp add: subprocess_run_check_def py_bind_def py_return_def subprocess_run_eq)

lemma get_kde_color_scheme_eq:
  "get_kde_color_scheme E s =
     (if can_start E kreadconfig_argv (world s)
      then (Inr (if returncode (answer E kreadconfig_argv s) \<noteq> 0 then []
                 else strip (stdout (answer E kreadconfig_argv s))),
            after E kreadconfig_argv s)
      else (Inl OSError, s))"
  by (simp add: get_kde_color_scheme_def try_except_def py_bind_def py_return_def
      subprocess_run_check_eq)

lemma get_target_profile_eq:
  "get_target_profile E s =
     (if can_start E kreadconfig_argv (world s)
      then (Inr (if is_dark_scheme (if returncode (answer E kreadconfig_argv s) \<noteq> 0 then []
                 else strip (stdout (answer E kreadconfig_argv s)))
                 then DARK_PROFILE else LIGHT_PROFILE),
            after E kreadconfig_argv s)
      else (Inl OSError, s))"
  by (simp add: get_target_profile_def py_bind_def py_return_def get_kde_color_scheme_eq)

lemma get_target_profile_Inr:
  assumes "get_target_profile E s = (Inr profile, s1)"
  shows "can_start E kreadconfig_argv (world s)" and "s1 = after E kreadconfig_argv s"
  using assms by (auto simp: get_target_profile_eq split: if_splits)

lemma get_konsole_sessions_eq:
  "can_start E (sessions_argv pid) (world s) \<Longrightarrow>
   get_konsole_sessions E pid s =
     (Inr (session_lines (answer E (sessions_argv pid) s)), after E (sessions_argv pid) s)"
  by (simp add: get_konsole_sessions_def try_except_def py_bind_def py_return_def
      subprocess_run_eq)

lemma set_session_profile_eq:
  "can_start E (setProfile_argv pid x profile) (world s) \<Longrightarrow>
   set_session_profile E pid x profile s =
     (Inr (returncode (answer E (setProfile_argv pid x profile) s) = 0),
      after E (setProfile_argv pid x profile) s)"
  by (simp add: set_session_profile_def try_except_def py_bind_def py_return_def
      subprocess_run_check_eq)

lemma update_konsolerc_default_profile_eq:
  "can_start E (kwriteconfig_argv E profile) (world s) \<Longrightarrow>
   update_konsolerc_default_profile E profile s =
     (Inr (),
      if returncode (answer E (kwriteconfig_argv E profile) s) = 0
      then after E (kwriteconfig_argv E profile) s
      else (after E (kwriteconfig_argv E profile) s)
             \<lparr>trace := trace (after E (kwriteconfig_argv E profile) s) @
                [Print (''Failed to update konsolerc: '' @
                   exc_str E (CalledProcessError
                     (returncode (answer E (kwriteconfig_argv E profile) s))
                     (kwriteconfig_argv E profile)))]\<rparr>)"
  by (simp add: update_konsolerc_default_profile_def try_except_def py_bind_def py_return_def
      subprocess_run_check_eq print_def)

lemma contains_iff: "contains sub s \<longleftrightarrow> (\<exists>pre suf. s = pre @ sub @ suf)"
proof (induction s)
  case Nil
  then show ?case by simp
next
  case (Cons c cs)
  show ?case
  proof
    assume "contains sub (c # cs)"
    then consider "startswith (c # cs) sub" | "contains sub cs" by auto
    then show "\<exists>pre suf. c # cs = pre @ sub @ suf"
    proof cases
      case 1
      then have "c # cs = [] @ sub @ drop (length sub) (c # cs)"
        unfolding startswith_def by (metis append_Nil append_take_drop_id)
      then show ?thesis by blast
    next
      case 2
      then obtain pre suf where "cs = pre @ sub @ suf" using Cons.IH by blast
      then have "c # cs = (c # pre) @ sub @ suf" by simp
      then show ?thesis by blast
    qed
  next
    assume "\<exists>pre suf. c # cs = pre @ sub @ suf"
    then obtain pre suf where eq: "c # cs = pre @ sub @ suf" by blast
    show "contains sub (c # cs)"
    proof (cases pre)
      case Nil
      then have "startswith (c # cs) sub" using eq by (simp add: startswith_def)
      then show ?thesis by simp
    next
      case (Cons a pre')
      then have "cs = pre' @ sub @ suf" using eq by simp
      then show ?thesis using Cons.IH by auto
    qed
  qed
qed

lemma emitted_append: "trace s' = trace s @ evs \<Longrightarrow> emitted s s' = evs"
  by (simp add: emitted_def)

lemma trace_after: "trace (after E argv s) = trace s @ [Run argv (answer E argv s)]"
  by (simp add: after_def)

lemma obs_setProfile [simp]:
  "is_apply (Run (setProfile_argv pid x p) r)"
  "\<not> is_list (Run (setProfile_argv pid x p) r)"
  "apply_of (Run (setProfile_argv pid x p) r) = (service pid, x, p)"
  "discovered_by (Run (setProfile_argv pid x p) r) = []"
  by (simp_all add: setProfile_argv_def)

lemma obs_sessions [simp]:
  "\<not> is_apply (Run (sessions_argv pid) r)"
  "is_list (Run (sessions_argv pid) r)"
  "discovered_by (Run (sessions_argv pid) r) = map (Pair (service pid)) (session_lines r)"
  by (simp_all add: sessions_argv_def)

lemma obs_other [simp]:
  "\<not> is_apply (Run pgrep_argv r)" "\<not> is_list (Run pgrep_argv r)"
  "discovered_by (Run pgrep_argv r) = []"
  "\<not> is_apply (Run kreadconfig_argv r)" "\<not> is_list (Run kreadconfig_argv r)"
  "discovered_by (Run kreadconfig_argv r) = []"
  "\<not> is_apply (Run (kwriteconfig_argv E p) r)" "\<not> is_list (Run (kwriteconfig_argv E p) r)"
  "discovered_by (Run (kwriteconfig_argv E p) r) = []"
  by (simp_all add: pgrep_argv_def kreadconfig_argv_def kwriteconfig_argv_def)

lemma obs_Print [simp]:
  "\<not> is_apply (Print l)" "\<not> is_list (Print l)" "discovered_by (Print l) = []"
  by simp_all

declare is_apply.simps [simp del] is_list.simps [simp del] discovered_by.simps [simp del]
  apply_of.simps [simp del]

lemma switch_sessions_trace:
  "starts E ''qdbus-qt6'' \<Longrightarrow>
   \<exists>evs s'. switch_sessions E pid profile xs n s
       = (Inr (n + int (length (filter succeeded evs))), s')
     \<and> trace s' = trace s @ evs
     \<and> list_all is_apply evs
     \<and> map apply_of evs = map (\<lambda>x. (service pid, x, profile)) xs"
proof (induction xs arbitrary: n s)
  case Nil
  show ?case by simp
next
  case (Cons x xs)
  note st = Cons.prems
  let ?argv = "setProfile_argv pid x profile"
  let ?a = "answer E ?argv s"
  let ?n1 = "if returncode ?a = 0 then n + 1 else n"
  obtain evs s' where IH:
    "switch_sessions E pid profile xs ?n1 (after E ?argv s)
       = (Inr (?n1 + int (length (filter succeeded evs))), s')"
    "trace s' = trace (after E ?argv s) @ evs"
    "list_all is_apply evs"
    "map apply_of evs = map (\<lambda>x. (service pid, x, profile)) xs"
    using Cons.IH [OF st, of ?n1 "after E ?argv s"] by blast
  have "switch_sessions E pid profile (x # xs) n s
       = (Inr (n + int (length (filter succeeded (Run ?argv ?a # evs)))), s')"
    using IH(1) by (simp add: set_session_profile_eq [OF starts_setProfile [OF st]])
  moreover have "trace s' = trace s @ Run ?argv ?a # evs"
    using IH(2) by (simp add: trace_after)
  moreover have "list_all is_apply (Run ?argv ?a # evs)"
    using IH(3) by simp
  moreover have "map apply_of (Run ?argv ?a # evs) = map (\<lambda>x. (service pid, x, profile)) (x # xs)"
    using IH(4) by simp
  ultimately show ?case by blast
qed

lemma discovered_append [simp]: "discovered (xs @ ys) = discovered xs @ discovered ys"
  by (simp add: discovered_def)

lemma applied_append [simp]: "applied (xs @ ys) = applied xs @ applied ys"
  by (simp add: applied_def)

lemma discovered_Cons [simp]: "discovered (x # xs) = discovered_by x @ discovered xs"
  by (simp add: discovered_def)

lemma discovered_Nil [simp]: "discovered [] = []"
  by (simp add: discovered_def)

lemma applied_all: "list_all is_apply evs \<Longrightarrow> applied evs = evs"
  by (simp add: applied_def list_all_iff)

lemma discovered_applies: "list_all is_apply evs \<Longrightarrow> discovered evs = []"
  by (induction evs) (auto simp: discovered_by.simps is_list.simps is_apply.simps
      elim!: is_apply.elims)

lemma applies_not_list: "list_all is_apply evs \<Longrightarrow> filter is_list evs = []"
  by (induction evs) (auto simp: is_list.simps is_apply.simps elim!: is_apply.elims)

lemma switch_pids_trace:
  "starts E ''qdbus-qt6'' \<Longrightarrow>
   \<exists>evs s'. switch_pids E profile pids n s
       = (Inr (n + int (length (filter succeeded (applied evs)))), s')
     \<and> trace s' = trace s @ evs
     \<and> list_all (\<lambda>ev. is_list ev \<or> is_apply ev) evs
     \<and> map argv_of (filter is_list evs) = map sessions_argv pids
     \<and> map apply_of (applied evs) = map (\<lambda>(sv, x). (sv, x, profile)) (discovered evs)"
proof (induction pids arbitrary: n s)
  case Nil
  show ?case by (simp add: applied_def)
next
  case (Cons pid pids)
  note st = Cons.prems
  let ?argv = "sessions_argv pid"
  let ?a = "answer E ?argv s"
  let ?s1 = "after E ?argv s"
  obtain as s2 where A:
    "switch_sessions E pid profile (session_lines ?a) n ?s1
       = (Inr (n + int (length (filter succeeded as))), s2)"
    "trace s2 = trace ?s1 @ as"
    "list_all is_apply as"
    "map apply_of as = map (\<lambda>x. (service pid, x, profile)) (session_lines ?a)"
    using switch_sessions_trace [OF st, of pid profile "session_lines ?a" n ?s1] by blast
  let ?n2 = "n + int (length (filter succeeded as))"
  obtain evs s' where IH:
    "switch_pids E profile pids ?n2 s2
       = (Inr (?n2 + int (length (filter succeeded (applied evs)))), s')"
    "trace s' = trace s2 @ evs"
    "list_all (\<lambda>ev. is_list ev \<or> is_apply ev) evs"
    "map argv_of (filter is_list evs) = map sessions_argv pids"
    "map apply_of (applied evs) = map (\<lambda>(sv, x). (sv, x, profile)) (discovered evs)"
    using Cons.IH [OF st, of ?n2 s2] by blast
  let ?all = "Run ?argv ?a # as @ evs"
  have ap: "applied ?all = as @ applied evs"
    using A(3) by (simp add: applied_def list_all_iff)
  have "switch_pids E profile (pid # pids) n s
       = (Inr (n + int (length (filter succeeded (applied ?all)))), s')"
    using A(1) IH(1) by (simp add: get_konsole_sessions_eq [OF starts_sessions [OF st]] ap)
  moreover have "trace s' = trace s @ ?all"
    using A(2) IH(2) by (simp add: trace_after)
  moreover have "list_all (\<lambda>ev. is_list ev \<or> is_apply ev) ?all"
    using A(3) IH(3) by (auto simp: list_all_iff)
  moreover have "map argv_of (filter is_list ?all) = map sessions_argv (pid # pids)"
    using IH(4) applies_not_list [OF A(3)] by simp
  moreover have "map apply_of (applied ?all) = map (\<lambda>(sv, x). (sv, x, profile)) (discovered ?all)"
    using A(4) IH(5) discovered_applies [OF A(3)] by (simp add: ap comp_def)
  ultimately show ?case by blast
qed

lemma digit_not_space: "is_digit c \<Longrightarrow> \<not> int_isspace c"
  by (auto simp: is_digit_def int_isspace_def Let_def)

lemma digit_not_sign: "is_digit c \<Longrightarrow> c \<noteq> CHR ''-'' \<and> c \<noteq> CHR ''+''"
  by (auto simp: is_digit_def Let_def)

lemma py_int_digit_limit:
  assumes "list_all is_digit s" and "length s > int_max_str_digits"
  shows "py_int s = Inl ValueError"
proof -
  have ne: "s \<noteq> []" using assms(2) by auto
  have h: "is_digit (hd s)" and l: "is_digit (last s)"
    using assms(1) ne by (auto simp: list_all_iff)
  have d1: "dropWhile int_isspace s = s"
    using ne h by (cases s) (auto dest: digit_not_space)
  have d2: "dropWhile int_isspace (rev s) = rev s"
    using ne l by (cases "rev s") (auto dest: digit_not_space simp: last_rev [symmetric] hd_rev)
  have f: "filter is_digit s = s"
    using assms(1) by (simp add: list_all_iff)
  have t: "rev (dropWhile int_isspace (rev (dropWhile int_isspace s))) = s"
    by (simp only: d1 d2 rev_rev_ident)
  obtain c cs where s: "s = c # cs" using ne by (cases s) auto
  then have sign: "c \<noteq> CHR ''-''" "c \<noteq> CHR ''+''" using h digit_not_sign by auto
  have "(case s of c # cs \<Rightarrow> if c = CHR ''-'' then (True, cs)
                         else if c = CHR ''+'' then (False, cs) else (False, s)
            | [] \<Rightarrow> (False, s)) = (False, s)"
    using sign by (simp add: s)
  then show ?thesis
    unfolding py_int_def t Let_def using assms(2) f by simp
qed

lemma py_int_raises: "py_int x = Inl e \<Longrightarrow> e = ValueError"
  by (auto simp: py_int_def Let_def split: prod.splits option.splits if_splits)

lemma int_all_raises: "int_all xs = Inl e \<Longrightarrow> e = ValueError"
  by (induction xs) (auto split: sum.splits dest: py_int_raises)

lemma get_konsole_pids_eq:
  "get_konsole_pids E s =
    (if can_start E pgrep_argv (world s)
     then (Inr (listed_pids (answer E pgrep_argv s)), after E pgrep_argv s)
     else (Inl OSError, s))"
  by (auto simp: get_konsole_pids_def try_except_def py_bind_def py_return_def subprocess_run_eq
      listed_pids_def split: sum.splits dest: int_all_raises)

lemma switch_all_konsoles_trace:
  assumes "starts E ''pgrep''" and "starts E ''qdbus-qt6''"
  shows "\<exists>rp qs s'. switch_all_konsoles E profile s = (Inr (), s')
     \<and> trace s' = trace s @ Run pgrep_argv rp # qs
          @ [Print (summary (int (length (filter succeeded (applied qs)))) profile)]
     \<and> list_all (\<lambda>ev. is_list ev \<or> is_apply ev) qs
     \<and> rp = answer E pgrep_argv s
     \<and> map argv_of (filter is_list qs) = map sessions_argv (listed_pids rp)
     \<and> map apply_of (applied qs) = map (\<lambda>(sv, x). (sv, x, profile)) (discovered qs)"
proof -
  let ?rp = "answer E pgrep_argv s"
  let ?pids = "listed_pids ?rp"
  have P: "get_konsole_pids E s = (Inr ?pids, after E pgrep_argv s)"
    using starts_pgrep [OF assms(1)] by (simp add: get_konsole_pids_eq)
  let ?s1 = "after E pgrep_argv s"
  obtain qs s2 where Q:
    "switch_pids E profile ?pids 0 ?s1
       = (Inr (0 + int (length (filter succeeded (applied qs)))), s2)"
    "trace s2 = trace ?s1 @ qs"
    "list_all (\<lambda>ev. is_list ev \<or> is_apply ev) qs"
    "map argv_of (filter is_list qs) = map sessions_argv ?pids"
    "map apply_of (applied qs) = map (\<lambda>(sv, x). (sv, x, profile)) (discovered qs)"
    using switch_pids_trace [OF assms(2), of profile ?pids 0 ?s1] by blast
  let ?line = "Print (summary (int (length (filter succeeded (applied qs)))) profile)"
  let ?s' = "s2\<lparr>trace := trace s2 @ [?line]\<rparr>"
  have "switch_all_konsoles E profile s = (Inr (), ?s')"
    using P Q(1) by (simp add: switch_all_konsoles_def py_bind_def print_def)
  moreover have "trace ?s' = trace s @ Run pgrep_argv ?rp # qs @ [?line]"
    using Q(2) by (simp add: trace_after)
  ultimately show ?thesis using Q(3) Q(4) Q(5) by blast
qed

lemma py_bind_print:
  "py_bind (print line) f s = f () (s\<lparr>trace := trace s @ [Print line]\<rparr>)"
  by (simp add: py_bind_def print_def)

lemma reconcile_trace:
  assumes "starts E ''pgrep''" and "starts E ''qdbus-qt6''" and "starts E ''kwriteconfig6''"
  shows "\<exists>rp qs rk s'.
     py_bind (switch_all_konsoles E profile) (\<lambda>u. update_konsolerc_default_profile E profile) s
       = (Inr (), s')
     \<and> trace s' = trace s @ Run pgrep_argv rp # qs
          @ [Print (summary (int (length (filter succeeded (applied qs)))) profile),
             Run (kwriteconfig_argv E profile) rk]
          @ (if returncode rk = 0 then []
             else [Print (''Failed to update konsolerc: '' @
                     exc_str E (CalledProcessError (returncode rk) (kwriteconfig_argv E profile)))])
     \<and> list_all (\<lambda>ev. is_list ev \<or> is_apply ev) qs
     \<and> map argv_of (filter is_list qs) = map sessions_argv (listed_pids rp)
     \<and> map apply_of (applied qs) = map (\<lambda>(sv, x). (sv, x, profile)) (discovered qs)"
proof -
  obtain rp qs s1 where S:
    "switch_all_konsoles E profile s = (Inr (), s1)"
    "trace s1 = trace s @ Run pgrep_argv rp # qs
          @ [Print (summary (int (length (filter succeeded (applied qs)))) profile)]"
    "list_all (\<lambda>ev. is_list ev \<or> is_apply ev) qs"
    "map argv_of (filter is_list qs) = map sessions_argv (listed_pids rp)"
    "map apply_of (applied qs) = map (\<lambda>(sv, x). (sv, x, profile)) (discovered qs)"
    using switch_all_konsoles_trace [OF assms(1,2), of profile s] by blast
  let ?argv = "kwriteconfig_argv E profile"
  let ?rk = "answer E ?argv s1"
  obtain s' where U: "update_konsolerc_default_profile E profile s1 = (Inr (), s')"
    "trace s' = trace s1 @ Run ?argv ?rk #
        (if returncode ?rk = 0 then []
         else [Print (''Failed to update konsolerc: '' @
                 exc_str E (CalledProcessError (returncode ?rk) ?argv))])"
    using starts_kwriteconfig [OF assms(3), of profile "world s1"]
    by (simp add: update_konsolerc_default_profile_eq trace_after)
  have "py_bind (switch_all_konsoles E profile)
          (\<lambda>u. update_konsolerc_default_profile E profile) s = (Inr (), s')"
    using S(1) U(1) by (simp add: py_bind_def)
  moreover have "trace s' = trace s @ Run pgrep_argv rp # qs
          @ [Print (summary (int (length (filter succeeded (applied qs)))) profile),
             Run ?argv ?rk]
          @ (if returncode ?rk = 0 then []
             else [Print (''Failed to update konsolerc: '' @
                     exc_str E (CalledProcessError (returncode ?rk) ?argv))])"
    using S(2) U(2) by simp
  ultimately show ?thesis using S(3) S(4) S(5) by blast
qed

lemma debounced_switch_discard:
  "monotonic E (world s) - last_switch_time h < DEBOUNCE_SECONDS
     \<Longrightarrow> debounced_switch E h s = (Inr (), h, s)"
  by (simp add: debounced_switch_def)

lemma debounced_switch_same:
  "\<not> monotonic E (world s) - last_switch_time h < DEBOUNCE_SECONDS
     \<Longrightarrow> get_target_profile E s = (Inr profile, s1)
     \<Longrightarrow> last_profile h = Some profile
     \<Longrightarrow> debounced_switch E h s = (Inr (), h, s1)"
  by (simp add: debounced_switch_def)

lemma debounced_switch_apply:
  assumes "\<not> monotonic E (world s) - last_switch_time h < DEBOUNCE_SECONDS"
    and "get_target_profile E s = (Inr profile, s1)"
    and "last_profile h \<noteq> Some profile"
    and "starts E ''pgrep''" and "starts E ''qdbus-qt6''" and "starts E ''kwriteconfig6''"
  shows "\<exists>rp qs rk s'.
     debounced_switch E h s
       = (Inr (), h\<lparr>last_switch_time := monotonic E (world s), last_profile := Some profile\<rparr>, s')
     \<and> trace s' = trace s1 @ Print (theme_changed profile) # Run pgrep_argv rp # qs
          @ [Print (summary (int (length (filter succeeded (applied qs)))) profile),
             Run (kwriteconfig_argv E profile) rk]
          @ (if returncode rk = 0 then []
             else [Print (''Failed to update konsolerc: '' @
                     exc_str E (CalledProcessError (returncode rk) (kwriteconfig_argv E profile)))])
     \<and> list_all (\<lambda>ev. is_list ev \<or> is_apply ev) qs
     \<and> map argv_of (filter is_list qs) = map sessions_argv (listed_pids rp)
     \<and> map apply_of (applied qs) = map (\<lambda>(sv, x). (sv, x, profile)) (discovered qs)"
proof -
  let ?s2 = "s1\<lparr>trace := trace s1 @ [Print (theme_changed profile)]\<rparr>"
  obtain rp qs rk s' where R:
    "py_bind (switch_all_konsoles E profile) (\<lambda>u. update_konsolerc_default_profile E profile) ?s2
       = (Inr (), s')"
    "trace s' = trace ?s2 @ Run pgrep_argv rp # qs
          @ [Print (summary (int (length (filter succeeded (applied qs)))) profile),
             Run (kwriteconfig_argv E profile) rk]
          @ (if returncode rk = 0 then []
             else [Print (''Failed to update konsolerc: '' @
                     exc_str E (CalledProcessError (returncode rk) (kwriteconfig_argv E profile)))])"
    "list_all (\<lambda>ev. is_list ev \<or> is_apply ev) qs"
    "map argv_of (filter is_list qs) = map sessions_argv (listed_pids rp)"
    "map apply_of (applied qs) = map (\<lambda>(sv, x). (sv, x, profile)) (discovered qs)"
    using reconcile_trace [OF assms(4,5,6), of profile ?s2] by blast
  have "debounced_switch E h s
       = (Inr (), h\<lparr>last_switch_time := monotonic E (world s), last_profile := Some profile\<rparr>, s')"
    using assms(1,2,3) R(1)
    by (simp add: debounced_switch_def Let_def py_bind_print)
  moreover have "trace s' = trace s1 @ Print (theme_changed profile) # Run pgrep_argv rp # qs
          @ [Print (summary (int (length (filter succeeded (applied qs)))) profile),
             Run (kwriteconfig_argv E profile) rk]
          @ (if returncode rk = 0 then []
             else [Print (''Failed to update konsolerc: '' @
                     exc_str E (CalledProcessError (returncode rk) (kwriteconfig_argv E profile)))])"
    using R(2) by simp
  ultimately show ?thesis using R(3) R(4) R(5) by blast
qed

lemma debounced_switch_changed:
  assumes "debounced_switch E h s = (r, h1, s1)" and "h1 \<noteq> h"
  shows "last_switch_time h1 = monotonic E (world s)"
  using assms
  by (auto simp: debounced_switch_def Let_def split: if_splits prod.splits sum.splits)

lemma dispatch_qualifying:
  "should_process ev \<Longrightarrow> dispatch E ev h s = debounced_switch E h s"
  by (cases "maskname ev")
    (simp_all add: dispatch_def process_IN_CLOSE_WRITE_def process_IN_MOVED_TO_def)

lemma dispatch_ignored:
  "\<not> should_process ev \<Longrightarrow> dispatch E ev h s = (Inr (), h, s)"
  by (cases "maskname ev")
    (simp_all add: dispatch_def process_IN_CLOSE_WRITE_def process_IN_MOVED_TO_def)








section \<open>The claims\<close>

text \<open>Claim C1. From any handler state \<open>h\<close>: when an event passes the debounce gate and
  the profile that the resolver returns is the stored \<^verbatim>\<open>_last_profile\<close>, the handler
  returns with \<open>h\<close> unchanged, and the only event added to the trace is the resolver's
  own query: no \<^verbatim>\<open>pgrep\<close>, no \<^verbatim>\<open>qdbus-qt6\<close>, no \<^verbatim>\<open>kwriteconfig6\<close>, no printed line,
  so neither \<^verbatim>\<open>switch_all_konsoles\<close> nor \<^verbatim>\<open>update_konsolerc_default_profile\<close> has
  been called.\<close>

theorem change_suppression:
  assumes "\<not> monotonic E (world s) - last_switch_time h < DEBOUNCE_SECONDS"
    and "get_target_profile E s = (Inr profile, s1)"
    and "last_profile h = Some profile"
  shows "debounced_switch E h s = (Inr (), h, s1)
         \<and> emitted s s1 = [Run kreadconfig_argv (answer E kreadconfig_argv s)]"
proof -
  have "s1 = after E kreadconfig_argv s"
    using assms(2) by (rule get_target_profile_Inr)
  then have "emitted s s1 = [Run kreadconfig_argv (answer E kreadconfig_argv s)]"
    by (simp add: emitted_append trace_after)
  then show ?thesis
    using debounced_switch_same [OF assms] by simp
qed

text \<open>The theorem of C1 at clock 10, stored profile \<^verbatim>\<open>Light\<close>, scheme
  \<^verbatim>\<open>BreezeLight\<close>.\<close>

theorem change_suppression_witness:
  "\<not> monotonic scripted (world (script_at 10 [ok (''BreezeLight'' @ nl)]))
       - last_switch_time \<lparr>last_switch_time = 0, last_profile = Some ''Light''\<rparr>
       < DEBOUNCE_SECONDS
   \<and> get_target_profile scripted (script_at 10 [ok (''BreezeLight'' @ nl)])
       = (Inr ''Light'', \<lparr>world = (10, []),
            trace = [Run kreadconfig_argv (ok (''BreezeLight'' @ nl))]\<rparr>)
   \<and> debounced_switch scripted \<lparr>last_switch_time = 0, last_profile = Some ''Light''\<rparr>
         (script_at 10 [ok (''BreezeLight'' @ nl)])
       = (Inr (), \<lparr>last_switch_time = 0, last_profile = Some ''Light''\<rparr>,
          \<lparr>world = (10, []),
           trace = [Run kreadconfig_argv (ok (''BreezeLight'' @ nl))]\<rparr>)"
proof -
  let ?h = "\<lparr>last_switch_time = 0, last_profile = Some ''Light''\<rparr>"
  let ?s = "script_at 10 [ok (''BreezeLight'' @ nl)]"
  let ?s1 = "\<lparr>world = (10 :: rat, [] :: completed_process list),
           trace = [Run kreadconfig_argv (ok (''BreezeLight'' @ nl))]\<rparr>"
  have a: "\<not> monotonic scripted (world ?s) - last_switch_time ?h < DEBOUNCE_SECONDS"
    by code_simp
  have b: "get_target_profile scripted ?s = (Inr ''Light'', ?s1)"
    by code_simp
  have c: "last_profile ?h = Some ''Light''"
    by simp
  show ?thesis
    using a b conjunct1 [OF change_suppression [OF a b c]] by (intro conjI)
qed

text \<open>Claim C2 as stated fails. The handler stores the time of the last switch, not of the
  last event. Two writes of \<^verbatim>\<open>kdeglobals\<close> arrive 0.1 s apart, at 10 and 10.1, with
  \<^verbatim>\<open>Light\<close> stored: at the first the scheme is still light, so the change gate discards
  it and no time is stored; at the second the scheme is dark, and the later event
  reconciles and writes the handler.\<close>

theorem debounce_any_two_events_counterexample:
  "(101 / 10 :: rat) - 10 < DEBOUNCE_SECONDS
   \<and> notifier_loop scripted
        [(kdeglobals_written, (10, [ok (''BreezeLight'' @ nl)]))]
        \<lparr>last_switch_time = 0, last_profile = Some ''Light''\<rparr> (script_at 0 [])
      = (Inr (), \<lparr>last_switch_time = 0, last_profile = Some ''Light''\<rparr>,
         \<lparr>world = (10, []),
          trace = [Run kreadconfig_argv (ok (''BreezeLight'' @ nl))]\<rparr>)
   \<and> notifier_loop scripted
        [(kdeglobals_written, (10, [ok (''BreezeLight'' @ nl)])),
         (kdeglobals_written, (101 / 10, [ok (''BreezeDark'' @ nl), failed, ok []]))]
        \<lparr>last_switch_time = 0, last_profile = Some ''Light''\<rparr> (script_at 0 [])
      = (Inr (), \<lparr>last_switch_time = 101 / 10, last_profile = Some ''Dark''\<rparr>,
         \<lparr>world = (101 / 10, []),
          trace = [Run kreadconfig_argv (ok (''BreezeLight'' @ nl)),
                   Run kreadconfig_argv (ok (''BreezeDark'' @ nl)),
                   Print (theme_changed ''Dark''),
                   Run pgrep_argv failed,
                   Print (summary 0 ''Dark''),
                   Run (kwriteconfig_argv scripted ''Dark'') (ok [])]\<rparr>)"
  by code_simp

text \<open>Claim C2, amended. Let a qualifying event have started a reconciliation (this is when
  the handler is written: \<open>h1 \<noteq> h\<close>). A qualifying event whose clock reading is less than
  0.5 after it is discarded: the handler, the world and the trace stay as they are. One
  that comes 0.5 or more after it, and resolves to a profile other than the stored
  one, starts a reconciliation of its own (it runs to its end where \<^verbatim>\<open>pgrep\<close>,
  \<^verbatim>\<open>qdbus-qt6\<close> and \<^verbatim>\<open>kwriteconfig6\<close> can be started).\<close>

theorem debounce_after_reconciliation:
  assumes "should_process ev1" and "should_process ev2"
    and "dispatch E ev1 h s = (r1, h1, s1)" and "h1 \<noteq> h"
  shows "(monotonic E (world s2) - monotonic E (world s) < DEBOUNCE_SECONDS
            \<longrightarrow> dispatch E ev2 h1 s2 = (Inr (), h1, s2))
       \<and> (\<not> monotonic E (world s2) - monotonic E (world s) < DEBOUNCE_SECONDS
            \<longrightarrow> (\<forall>p2 s3. get_target_profile E s2 = (Inr p2, s3) \<and> last_profile h1 \<noteq> Some p2
                     \<and> starts E ''pgrep'' \<and> starts E ''qdbus-qt6'' \<and> starts E ''kwriteconfig6''
                   \<longrightarrow> (\<exists>rp s4. dispatch E ev2 h1 s2
                           = (Inr (), \<lparr>last_switch_time = monotonic E (world s2),
                                       last_profile = Some p2\<rparr>, s4)
                         \<and> Run pgrep_argv rp \<in> set (emitted s2 s4))))"
proof -
  have t: "last_switch_time h1 = monotonic E (world s)"
    using assms(1,3,4) debounced_switch_changed [of E h s r1 h1 s1]
    by (simp add: dispatch_qualifying)
  show ?thesis
  proof (intro conjI impI allI)
    assume "monotonic E (world s2) - monotonic E (world s) < DEBOUNCE_SECONDS"
    then show "dispatch E ev2 h1 s2 = (Inr (), h1, s2)"
      using assms(2) t by (simp add: dispatch_qualifying debounced_switch_discard)
  next
    fix p2 s3
    assume late: "\<not> monotonic E (world s2) - monotonic E (world s) < DEBOUNCE_SECONDS"
      and res: "get_target_profile E s2 = (Inr p2, s3) \<and> last_profile h1 \<noteq> Some p2
                     \<and> starts E ''pgrep'' \<and> starts E ''qdbus-qt6'' \<and> starts E ''kwriteconfig6''"
    have s3: "trace s3 = trace s2 @ [Run kreadconfig_argv (answer E kreadconfig_argv s2)]"
      using res get_target_profile_Inr(2) [of E s2 p2 s3] by (simp add: trace_after)
    obtain rp qs rk s4 where A:
      "debounced_switch E h1 s2
         = (Inr (), h1\<lparr>last_switch_time := monotonic E (world s2), last_profile := Some p2\<rparr>, s4)"
      "trace s4 = trace s3 @ Print (theme_changed p2) # Run pgrep_argv rp # qs
          @ [Print (summary (int (length (filter succeeded (applied qs)))) p2),
             Run (kwriteconfig_argv E p2) rk]
          @ (if returncode rk = 0 then []
             else [Print (''Failed to update konsolerc: '' @
                     exc_str E (CalledProcessError (returncode rk) (kwriteconfig_argv E p2)))])"
      using debounced_switch_apply [of E s2 h1 p2 s3] late res t by auto
    have "Run pgrep_argv rp \<in> set (emitted s2 s4)"
      using A(2) s3 by (simp add: emitted_def)
    moreover have "dispatch E ev2 h1 s2
        = (Inr (), \<lparr>last_switch_time = monotonic E (world s2), last_profile = Some p2\<rparr>, s4)"
      using A(1) assms(2) by (simp add: dispatch_qualifying)
    ultimately show "\<exists>rp s4. dispatch E ev2 h1 s2
                           = (Inr (), \<lparr>last_switch_time = monotonic E (world s2),
                                       last_profile = Some p2\<rparr>, s4)
                         \<and> Run pgrep_argv rp \<in> set (emitted s2 s4)"
      by blast
  qed
qed

text \<open>The theorem of C2 after a switch to \<^verbatim>\<open>Dark\<close> at clock 10: an event at 10.1 is
  discarded, an event at 10.5 that resolves to \<^verbatim>\<open>Light\<close> reconciles.\<close>

theorem debounce_after_reconciliation_witness:
  "should_process kdeglobals_written
   \<and> starts scripted ''pgrep'' \<and> starts scripted ''qdbus-qt6''
   \<and> starts scripted ''kwriteconfig6''
   \<and> dispatch scripted kdeglobals_written \<lparr>last_switch_time = 0, last_profile = Some ''Light''\<rparr>
        (script_at 10 [ok (''BreezeDark'' @ nl), failed, ok []])
      = (Inr (), \<lparr>last_switch_time = 10, last_profile = Some ''Dark''\<rparr>,
         \<lparr>world = (10, []),
          trace = [Run kreadconfig_argv (ok (''BreezeDark'' @ nl)),
                   Print (theme_changed ''Dark''),
                   Run pgrep_argv failed,
                   Print (summary 0 ''Dark''),
                   Run (kwriteconfig_argv scripted ''Dark'') (ok [])]\<rparr>)
   \<and> \<lparr>last_switch_time = 10, last_profile = Some ''Dark''\<rparr>
       \<noteq> \<lparr>last_switch_time = 0, last_profile = Some ''Light''\<rparr>
   \<and> monotonic scripted (world (script_at (101 / 10) [ok (''BreezeLight'' @ nl)]))
       - monotonic scripted (world (script_at 10 [ok (''BreezeDark'' @ nl), failed, ok []]))
       < DEBOUNCE_SECONDS
   \<and> dispatch scripted kdeglobals_written \<lparr>last_switch_time = 10, last_profile = Some ''Dark''\<rparr>
        (script_at (101 / 10) [ok (''BreezeLight'' @ nl)])
      = (Inr (), \<lparr>last_switch_time = 10, last_profile = Some ''Dark''\<rparr>,
         script_at (101 / 10) [ok (''BreezeLight'' @ nl)])
   \<and> \<not> monotonic scripted (world (script_at (21 / 2) [ok (''BreezeLight'' @ nl), failed, ok []]))
       - monotonic scripted (world (script_at 10 [ok (''BreezeDark'' @ nl), failed, ok []]))
       < DEBOUNCE_SECONDS
   \<and> get_target_profile scripted (script_at (21 / 2) [ok (''BreezeLight'' @ nl), failed, ok []])
      = (Inr ''Light'', \<lparr>world = (21 / 2, [failed, ok []]),
           trace = [Run kreadconfig_argv (ok (''BreezeLight'' @ nl))]\<rparr>)
   \<and> (\<exists>rp s4. dispatch scripted kdeglobals_written
                 \<lparr>last_switch_time = 10, last_profile = Some ''Dark''\<rparr>
                 (script_at (21 / 2) [ok (''BreezeLight'' @ nl), failed, ok []])
               = (Inr (), \<lparr>last_switch_time =
                     monotonic scripted
                       (world (script_at (21 / 2) [ok (''BreezeLight'' @ nl), failed, ok []])),
                   last_profile = Some ''Light''\<rparr>, s4)
             \<and> Run pgrep_argv rp
                 \<in> set (emitted (script_at (21 / 2) [ok (''BreezeLight'' @ nl), failed, ok []]) s4))"
proof -
  let ?ev = kdeglobals_written
  let ?h = "\<lparr>last_switch_time = 0, last_profile = Some ''Light''\<rparr>"
  let ?h1 = "\<lparr>last_switch_time = 10, last_profile = Some ''Dark''\<rparr>"
  let ?s = "script_at 10 [ok (''BreezeDark'' @ nl), failed, ok []]"
  let ?s1 = "\<lparr>world = (10 :: rat, [] :: completed_process list),
          trace = [Run kreadconfig_argv (ok (''BreezeDark'' @ nl)),
                   Print (theme_changed ''Dark''),
                   Run pgrep_argv failed,
                   Print (summary 0 ''Dark''),
                   Run (kwriteconfig_argv scripted ''Dark'') (ok [])]\<rparr>"
  let ?s2 = "script_at (101 / 10) [ok (''BreezeLight'' @ nl)]"
  let ?s2' = "script_at (21 / 2) [ok (''BreezeLight'' @ nl), failed, ok []]"
  let ?s3 = "\<lparr>world = (21 / 2 :: rat, [failed, ok []]),
           trace = [Run kreadconfig_argv (ok (''BreezeLight'' @ nl))]\<rparr>"
  have q: "should_process ?ev" by code_simp
  have d: "dispatch scripted ?ev ?h ?s = (Inr (), ?h1, ?s1)" by code_simp
  have n: "?h1 \<noteq> ?h" by simp
  have early: "monotonic scripted (world ?s2) - monotonic scripted (world ?s) < DEBOUNCE_SECONDS"
    by code_simp
  have late: "\<not> monotonic scripted (world ?s2') - monotonic scripted (world ?s) < DEBOUNCE_SECONDS"
    by code_simp
  have g: "get_target_profile scripted ?s2' = (Inr ''Light'', ?s3)" by code_simp
  have p: "last_profile ?h1 \<noteq> Some ''Light''" by simp
  have one: "dispatch scripted ?ev ?h1 ?s2 = (Inr (), ?h1, ?s2)"
    using debounce_after_reconciliation [OF q q d n, of ?s2] early by blast
  have two: "\<exists>rp s4. dispatch scripted ?ev ?h1 ?s2'
       = (Inr (), \<lparr>last_switch_time = monotonic scripted (world ?s2'),
                   last_profile = Some ''Light''\<rparr>, s4)
       \<and> Run pgrep_argv rp \<in> set (emitted ?s2' s4)"
    using debounce_after_reconciliation [OF q q d n, of ?s2'] late g p starts_scripted
    by blast
  show ?thesis
    using q starts_scripted d n early one late g two by (intro conjI)
qed

text \<open>Claim C3. The identifier is what \<^verbatim>\<open>get_kde_color_scheme\<close> returns. The resolver
  returns \<^verbatim>\<open>Dark\<close> exactly when the lowercased identifier contains one of the six
  keywords (it is \<open>pre @ k @ suf\<close> for a keyword \<open>k\<close>), and \<^verbatim>\<open>Light\<close> otherwise; the
  result is a function of the identifier alone, and \<^verbatim>\<open>BreezeDark\<close> resolves to
  \<^verbatim>\<open>Dark\<close>.\<close>

theorem mode_resolver_classification:
  assumes "get_kde_color_scheme E s = (Inr ident, s1)"
  shows "get_target_profile E s =
           (Inr (if \<exists>k \<in> {''dark'', ''night'', ''black'', ''monokai'', ''dracula'', ''nord''}.
                      \<exists>pre suf. lower ident = pre @ k @ suf
                 then ''Dark'' else ''Light''), s1)
         \<and> (ident = ''BreezeDark'' \<longrightarrow> get_target_profile E s = (Inr ''Dark'', s1))"
proof -
  have dark: "is_dark_scheme ident \<longleftrightarrow>
      (\<exists>k \<in> {''dark'', ''night'', ''black'', ''monokai'', ''dracula'', ''nord''}.
         \<exists>pre suf. lower ident = pre @ k @ suf)"
  proof -
    have "set dark_indicators = {''dark'', ''night'', ''black'', ''monokai'', ''dracula'', ''nord''}"
      unfolding dark_indicators_def by (simp only: list.set)
    then show ?thesis
      by (simp only: is_dark_scheme_def Let_def list_ex_iff contains_iff)
  qed
  have res: "get_target_profile E s =
      (Inr (if is_dark_scheme ident then ''Dark'' else ''Light''), s1)"
    using assms
    by (simp add: get_target_profile_def py_bind_def py_return_def DARK_PROFILE_def
        LIGHT_PROFILE_def)
  have breeze: "is_dark_scheme ''BreezeDark''" by code_simp
  show ?thesis using res dark breeze by auto
qed

text \<open>The theorem of C3 where \<^verbatim>\<open>kreadconfig6\<close> prints \<^verbatim>\<open>BreezeDark\<close>.\<close>

theorem mode_resolver_classification_witness:
  "get_kde_color_scheme scripted (script_at 0 [ok (''BreezeDark'' @ nl)])
     = (Inr ''BreezeDark'',
        \<lparr>world = (0, []),
         trace = [Run kreadconfig_argv (ok (''BreezeDark'' @ nl))]\<rparr>)
   \<and> get_target_profile scripted (script_at 0 [ok (''BreezeDark'' @ nl)])
     = (Inr ''Dark'',
        \<lparr>world = (0, []),
         trace = [Run kreadconfig_argv (ok (''BreezeDark'' @ nl))]\<rparr>)"
proof -
  have h: "get_kde_color_scheme scripted (script_at 0 [ok (''BreezeDark'' @ nl)])
     = (Inr ''BreezeDark'',
        \<lparr>world = (0, []),
         trace = [Run kreadconfig_argv (ok (''BreezeDark'' @ nl))]\<rparr>)"
    by code_simp
  have g: "get_target_profile scripted (script_at 0 [ok (''BreezeDark'' @ nl)])
     = (Inr ''Dark'',
        \<lparr>world = (0, []),
         trace = [Run kreadconfig_argv (ok (''BreezeDark'' @ nl))]\<rparr>)"
    using conjunct2 [OF mode_resolver_classification [OF h]] by (rule mp) (rule refl)
  show ?thesis
    using h g by (rule conjI)
qed















text \<open>Claim C10 as stated fails. On a machine where \<^verbatim>\<open>pgrep\<close> cannot be started the
  call raises \<^verbatim>\<open>OSError\<close>, which is not among the caught classes
  (\<^verbatim>\<open>CalledProcessError\<close>, \<^verbatim>\<open>ValueError\<close>): \<^verbatim>\<open>get_konsole_pids\<close> raises it to its
  caller.\<close>

theorem get_konsole_pids_raises_counterexample:
  "\<not> can_start (without ''pgrep'') pgrep_argv (world (script_at 0 []))
   \<and> get_konsole_pids (without ''pgrep'') (script_at 0 []) = (Inl OSError, script_at 0 [])"
  by code_simp

text \<open>Claim C10, amended. Whenever \<^verbatim>\<open>pgrep\<close> has been started, whatever its exit status
  and output, \<^verbatim>\<open>get_konsole_pids\<close> returns a list of integers and raises nothing; the
  list is empty when the exit status is not 0, and when a non-empty line of the output is
  not an integer that \<^verbatim>\<open>int\<close> converts (the \<^verbatim>\<open>ValueError\<close> is caught).\<close>

theorem get_konsole_pids_never_raises:
  assumes "can_start E pgrep_argv (world s)"
  shows "(\<exists>pids. get_konsole_pids E s = (Inr pids, after E pgrep_argv s))
   \<and> (returncode (answer E pgrep_argv s) \<noteq> 0
        \<longrightarrow> get_konsole_pids E s = (Inr [], after E pgrep_argv s))
   \<and> ((\<exists>line \<in> set (split (strip (stdout (answer E pgrep_argv s))) (CHR 0x0A)).
          line \<noteq> [] \<and> py_int line = Inl ValueError)
        \<longrightarrow> get_konsole_pids E s = (Inr [], after E pgrep_argv s))"
proof -
  have bad: "int_all xs = Inl ValueError" if "x \<in> set xs" "py_int x = Inl ValueError"
    for x xs
    using that by (induction xs) (auto split: sum.splits dest: py_int_raises)
  have eq: "get_konsole_pids E s
      = (Inr (listed_pids (answer E pgrep_argv s)), after E pgrep_argv s)"
    using assms by (simp add: get_konsole_pids_eq)
  show ?thesis
  proof (intro conjI impI)
    show "\<exists>pids. get_konsole_pids E s = (Inr pids, after E pgrep_argv s)"
      using eq by simp
  next
    assume "returncode (answer E pgrep_argv s) \<noteq> 0"
    then show "get_konsole_pids E s = (Inr [], after E pgrep_argv s)"
      using eq by (simp add: listed_pids_def)
  next
    assume "\<exists>line \<in> set (split (strip (stdout (answer E pgrep_argv s))) (CHR 0x0A)).
          line \<noteq> [] \<and> py_int line = Inl ValueError"
    then obtain line where
      "line \<in> set (filter (\<lambda>pid. pid \<noteq> []) (split (strip (stdout (answer E pgrep_argv s))) (CHR 0x0A)))"
      "py_int line = Inl ValueError"
      by auto
    then have "int_all (filter (\<lambda>pid. pid \<noteq> [])
        (split (strip (stdout (answer E pgrep_argv s))) (CHR 0x0A))) = Inl ValueError"
      by (rule bad)
    then show "get_konsole_pids E s = (Inr [], after E pgrep_argv s)"
      using eq by (simp add: listed_pids_def)
  qed
qed

text \<open>The theorem of C10 on an output with a line that is not an integer, beside the
  list read from a well-formed output.\<close>

theorem get_konsole_pids_never_raises_witness:
  "can_start scripted pgrep_argv (world (script_at 0 [ok (''4711'' @ nl @ ''konsole'' @ nl)]))
   \<and> get_konsole_pids scripted (script_at 0 [ok (''4711'' @ nl @ ''konsole'' @ nl)])
     = (Inr [], after scripted pgrep_argv (script_at 0 [ok (''4711'' @ nl @ ''konsole'' @ nl)]))
   \<and> get_konsole_pids scripted (script_at 0 [ok (''4711'' @ nl @ ''4712'' @ nl)])
     = (Inr [4711, 4712], \<lparr>world = (0, []),
          trace = [Run pgrep_argv (ok (''4711'' @ nl @ ''4712'' @ nl))]\<rparr>)"
proof -
  let ?s = "script_at 0 [ok (''4711'' @ nl @ ''konsole'' @ nl)]"
  have c: "can_start scripted pgrep_argv (world ?s)"
    by code_simp
  have h: "\<exists>line \<in> set (split (strip (stdout (answer scripted pgrep_argv ?s))) (CHR 0x0A)).
          line \<noteq> [] \<and> py_int line = Inl ValueError"
    by code_simp
  have g: "get_konsole_pids scripted (script_at 0 [ok (''4711'' @ nl @ ''4712'' @ nl)])
     = (Inr [4711, 4712], \<lparr>world = (0, []),
          trace = [Run pgrep_argv (ok (''4711'' @ nl @ ''4712'' @ nl))]\<rparr>)"
    by code_simp
  show ?thesis
    using c h g get_konsole_pids_never_raises [OF c] by blast
qed

end
